theory Spec2Isabelle
  imports Complex_Main "HOL-Library.Char_ord" "HOL-Library.List_Lexorder" "HOL-Library.Product_Lexorder"
begin

section \<open>The shop database\<close>

text \<open>
  The program keeps two SQLite tables, \<^verbatim>\<open>products (id, name, price, quantity)\<close> and
  \<^verbatim>\<open>sales (id, product_id, quantity_sold, sale_date)\<close>, behind a global cursor. The model
  passes the two tables explicitly, each as the list of its rows. The fields carry the
  aliases of the join query (\<^verbatim>\<open>p.\<close> and \<^verbatim>\<open>s.\<close>) as prefixes.

  \<^item> \<^verbatim>\<open>INTEGER\<close> columns are unbounded integers.
  \<^item> \<^verbatim>\<open>REAL\<close> columns are rationals: arithmetic on finite values is exact. The values that
    only floating point has (the infinities and NaN, which a division by zero produces in
    pandas) are modelled separately, see \<open>fval\<close> below.
  \<^item> \<^verbatim>\<open>sale_date\<close> is the text that \<^verbatim>\<open>record_sale\<close> writes with
    \<^verbatim>\<open>strftime('%Y-%m-%d %H:%M:%S')\<close>; the model holds the fields of the timestamp that
    \<^verbatim>\<open>pd.to_datetime\<close> reads back from it.
\<close>

record timestamp =
  ts_year :: int
  ts_month :: int
  ts_day :: int
  ts_hour :: int
  ts_minute :: int
  ts_second :: int
  ts_microsecond :: int

record product =
  p_id :: string
  p_name :: string
  p_price :: rat
  p_quantity :: int

record sale =
  s_id :: string
  s_product_id :: string
  s_quantity_sold :: int
  s_sale_date :: timestamp

record shop_db =
  products :: "product list"
  sales :: "sale list"

section \<open>Stock classifier: \<^verbatim>\<open>get_products\<close>\<close>

text \<open>
  \<^verbatim>\<open>lambda x: 'Out of Stock' if x == 0 else 'Low Stock' if x < 5 else 'In Stock'\<close>
\<close>

definition stock_status :: "int \<Rightarrow> string" where
  "stock_status x =
     (if x = 0 then ''Out of Stock'' else if x < 5 then ''Low Stock'' else ''In Stock'')"

text \<open>A row of the data frame that \<^verbatim>\<open>get_products\<close> returns.\<close>

record product_row =
  ID :: string
  Name :: string
  Price :: rat
  Quantity :: int
  Stock_Status :: string

definition get_products :: "shop_db \<Rightarrow> product_row list" where
  "get_products db =
     map (\<lambda>p. \<lparr>ID = p_id p, Name = p_name p, Price = p_price p, Quantity = p_quantity p,
               Stock_Status = stock_status (p_quantity p)\<rparr>)
         (products db)"

section \<open>Numeric columns and errors\<close>

text \<open>
  pandas divides numeric columns as IEEE floating point: a division by zero raises nothing
  and gives an infinity or NaN. A column that can hold such a value is an \<open>fval\<close>. Finite
  values stay exact rationals; rounding and signed zeros are not modelled. Comparisons
  with NaN are false, as in Python.

  A column of dtype \<^verbatim>\<open>object\<close> holds Python objects, and arithmetic on it is Python's own:
  dividing by the integer 0 raises \<^verbatim>\<open>ZeroDivisionError\<close>. The frame that \<^verbatim>\<open>get_sales\<close> builds
  from an empty result set, \<^verbatim>\<open>pd.DataFrame([], columns=[...])\<close>, has only such columns, and
  the columns derived from them keep that dtype.
\<close>

datatype py_error = ZeroDivisionError

datatype dtype = Float64 | Object

datatype fval = Fin rat | PInf | NInf | NaN

definition fdiv :: "rat \<Rightarrow> rat \<Rightarrow> fval" where
  "fdiv a b =
     (if b \<noteq> 0 then Fin (a / b) else if 0 < a then PInf else if a < 0 then NInf else NaN)"

fun fmul :: "fval \<Rightarrow> rat \<Rightarrow> fval" where
  "fmul (Fin a) c = Fin (a * c)"
| "fmul PInf c = (if 0 < c then PInf else if c < 0 then NInf else NaN)"
| "fmul NInf c = (if 0 < c then NInf else if c < 0 then PInf else NaN)"
| "fmul NaN c = NaN"

fun fadd :: "fval \<Rightarrow> fval \<Rightarrow> fval" where
  "fadd (Fin a) (Fin b) = Fin (a + b)"
| "fadd NaN y = NaN"
| "fadd x NaN = NaN"
| "fadd PInf NInf = NaN"
| "fadd NInf PInf = NaN"
| "fadd PInf y = PInf"
| "fadd x PInf = PInf"
| "fadd NInf y = NInf"
| "fadd x NInf = NInf"

definition fsum :: "fval list \<Rightarrow> fval" where
  "fsum xs = foldl fadd (Fin 0) xs"

fun flt :: "fval \<Rightarrow> rat \<Rightarrow> bool" where
  "flt (Fin a) c = (a < c)"
| "flt PInf c = False"
| "flt NInf c = True"
| "flt NaN c = False"

fun fgt :: "fval \<Rightarrow> rat \<Rightarrow> bool" where
  "fgt (Fin a) c = (c < a)"
| "fgt PInf c = True"
| "fgt NInf c = False"
| "fgt NaN c = False"

section \<open>Calendar arithmetic\<close>

text \<open>
  The proleptic Gregorian ordinal of a date and the ISO-8601 calendar, as the
  \<^verbatim>\<open>datetime\<close> library computes them (\<^verbatim>\<open>_ymd2ord\<close>, \<^verbatim>\<open>_isoweek1monday\<close>,
  \<^verbatim>\<open>isocalendar\<close>); \<^verbatim>\<open>Series.dt.isocalendar()\<close> gives the same year, week and day. A
  timestamp read by \<^verbatim>\<open>pd.to_datetime\<close> is a valid date, so its month is between 1 and 12.
\<close>

definition is_leap :: "int \<Rightarrow> bool" where
  "is_leap year = (year mod 4 = 0 \<and> (year mod 100 \<noteq> 0 \<or> year mod 400 = 0))"

definition days_before_year :: "int \<Rightarrow> int" where
  "days_before_year year = (let y = year - 1 in y * 365 + y div 4 - y div 100 + y div 400)"

definition days_before_month :: "int \<Rightarrow> int \<Rightarrow> int" where
  "days_before_month year month =
     (if 1 \<le> month \<and> month \<le> 12
      then [0, 31, 59, 90, 120, 151, 181, 212, 243, 273, 304, 334] ! nat (month - 1)
      else 0)
     + (if 2 < month \<and> is_leap year then 1 else 0)"

definition ymd2ord :: "int \<Rightarrow> int \<Rightarrow> int \<Rightarrow> int" where
  "ymd2ord year month day = days_before_year year + days_before_month year month + day"

definition isoweek1monday :: "int \<Rightarrow> int" where
  "isoweek1monday year =
     (let firstday = ymd2ord year 1 1;
          firstweekday = (firstday + 6) mod 7;
          week1monday = firstday - firstweekday
      in if 3 < firstweekday then week1monday + 7 else week1monday)"

text \<open>The result is (ISO year, ISO week, ISO weekday).\<close>

definition isocalendar :: "timestamp \<Rightarrow> int \<times> int \<times> int" where
  "isocalendar t =
     (let year = ts_year t;
          week1monday = isoweek1monday year;
          today = ymd2ord (ts_year t) (ts_month t) (ts_day t);
          week = (today - week1monday) div 7;
          day = (today - week1monday) mod 7
      in if week < 0
         then (let week1monday' = isoweek1monday (year - 1)
               in (year - 1, (today - week1monday') div 7 + 1, (today - week1monday') mod 7 + 1))
         else if 52 \<le> week \<and> isoweek1monday (year + 1) \<le> today
         then (year + 1, 1, day + 1)
         else (year, week + 1, day + 1))"

definition iso_year :: "timestamp \<Rightarrow> int" where
  "iso_year t = fst (isocalendar t)"

definition iso_week :: "timestamp \<Rightarrow> int" where
  "iso_week t = fst (snd (isocalendar t))"

text \<open>The position of a timestamp on the time line, in microseconds.\<close>

definition ts_ordinal :: "timestamp \<Rightarrow> int" where
  "ts_ordinal t =
     (((ymd2ord (ts_year t) (ts_month t) (ts_day t) * 24 + ts_hour t) * 60 + ts_minute t) * 60
        + ts_second t) * 1000000 + ts_microsecond t"

text \<open>\<^verbatim>\<open>timedelta(days=n)\<close> in microseconds.\<close>

definition timedelta_days :: "int \<Rightarrow> int" where
  "timedelta_days n = n * 86400 * 1000000"

text \<open>The minimum of a column of timestamps; \<open>None\<close> is pandas' NaT, the minimum of no value.\<close>

fun min_date :: "timestamp list \<Rightarrow> timestamp option" where
  "min_date [] = None"
| "min_date (t # ts) =
     (case min_date ts of
        None \<Rightarrow> Some t
      | Some m \<Rightarrow> Some (if ts_ordinal m < ts_ordinal t then m else t))"

text \<open>\<^verbatim>\<open>strftime('%Y-%m-%d')\<close>: the year on four digits, month and day on two.\<close>

definition digit :: "int \<Rightarrow> char" where
  "digit n = ''0123456789'' ! nat (n mod 10)"

definition strftime_date :: "timestamp \<Rightarrow> string" where
  "strftime_date t =
     [digit (ts_year t div 1000), digit (ts_year t div 100), digit (ts_year t div 10),
      digit (ts_year t), CHR ''-'',
      digit (ts_month t div 10), digit (ts_month t), CHR ''-'',
      digit (ts_day t div 10), digit (ts_day t)]"

section \<open>Grouping\<close>

text \<open>
  \<^verbatim>\<open>df.groupby(key)[col].sum()\<close>: one entry per distinct key, the keys in ascending order
  (\<^verbatim>\<open>sort=True\<close> is the default), each with the sum of the column over the rows of its group.
\<close>

definition group_keys :: "('r \<Rightarrow> 'k::linorder) \<Rightarrow> 'r list \<Rightarrow> 'k list" where
  "group_keys key rows = sort (remdups (map key rows))"

definition group_rows :: "('r \<Rightarrow> 'k) \<Rightarrow> 'r list \<Rightarrow> 'k \<Rightarrow> 'r list" where
  "group_rows key rows k = filter (\<lambda>r. key r = k) rows"

definition group_sum ::
  "('r \<Rightarrow> 'k::linorder) \<Rightarrow> ('r \<Rightarrow> 'v::comm_monoid_add) \<Rightarrow> 'r list \<Rightarrow> ('k \<times> 'v) list" where
  "group_sum key val rows =
     map (\<lambda>k. (k, sum_list (map val (group_rows key rows k)))) (group_keys key rows)"

section \<open>Sale aggregator: \<^verbatim>\<open>get_sales\<close>\<close>

text \<open>
  A row of the data frame that \<^verbatim>\<open>get_sales\<close> returns. Its columns \<^verbatim>\<open>Name\<close> and
  \<^verbatim>\<open>Price\<close> are \<open>Sale_Name\<close> and \<open>Sale_Price\<close> here, apart from those of the product frame.
\<close>

record sale_row =
  Sale_ID :: string
  Sale_Name :: string
  Quantity_Sold :: int
  Sale_Date :: timestamp
  Sale_Price :: rat
  Revenue :: rat

text \<open>
  \<^verbatim>\<open>SELECT s.id, p.name, s.quantity_sold, s.sale_date, p.price
  FROM sales s JOIN products p ON s.product_id = p.id\<close>
\<close>

definition join_row :: "sale \<Rightarrow> product \<Rightarrow> sale_row" where
  "join_row s p =
     \<lparr>Sale_ID = s_id s, Sale_Name = p_name p, Quantity_Sold = s_quantity_sold s,
      Sale_Date = s_sale_date s, Sale_Price = p_price p,
      Revenue = of_int (s_quantity_sold s) * p_price p\<rparr>"

definition get_sales :: "shop_db \<Rightarrow> sale_row list" where
  "get_sales db =
     concat (map (\<lambda>s. map (join_row s) (filter (\<lambda>p. s_product_id s = p_id p) (products db)))
                 (sales db))"

section \<open>Weekly rollup: \<^verbatim>\<open>get_weekly_sales\<close>\<close>

text \<open>
  The grouping key of a sale row, (\<^verbatim>\<open>Year\<close>, \<^verbatim>\<open>Week\<close>):
  \<^verbatim>\<open>sales['Week'] = sales['Sale Date'].dt.isocalendar().week\<close> and
  \<^verbatim>\<open>sales['Year'] = sales['Sale Date'].dt.year\<close>.
\<close>

definition year_week :: "sale_row \<Rightarrow> int \<times> int" where
  "year_week r = (ts_year (Sale_Date r), iso_week (Sale_Date r))"

record weekly_row =
  Year :: int
  Week :: int
  Weekly_Quantity_Sold :: int
  Weekly_Revenue :: rat
  Week_Start :: "string option"

definition weekly_of :: "sale_row list \<Rightarrow> weekly_row list" where
  "weekly_of rows =
     map (\<lambda>k. \<lparr>Year = fst k, Week = snd k,
               Weekly_Quantity_Sold = sum_list (map Quantity_Sold (group_rows year_week rows k)),
               Weekly_Revenue = sum_list (map Revenue (group_rows year_week rows k)),
               Week_Start =
                 map_option strftime_date (min_date (map Sale_Date (group_rows year_week rows k)))\<rparr>)
         (group_keys year_week rows)"

definition get_weekly_sales :: "shop_db \<Rightarrow> weekly_row list" where
  "get_weekly_sales db = weekly_of (get_sales db)"

section \<open>Insights: \<^verbatim>\<open>get_insights\<close>\<close>

text \<open>
  \<^verbatim>\<open>Series.diff()\<close>: the first entry has no predecessor and is NaN, every other entry is
  the value minus the one before it.
\<close>

fun diff :: "int list \<Rightarrow> fval list" where
  "diff [] = []"
| "diff (x # xs) = NaN # map2 (\<lambda>a b. Fin (of_int (b - a))) (x # xs) xs"

text \<open>
  \<^verbatim>\<open>lambda x: 'Increasing' if x > 0 else 'Decreasing' if x < 0 else 'Stable'\<close>
\<close>

definition trend_of :: "fval \<Rightarrow> string" where
  "trend_of x =
     (if fgt x 0 then ''Increasing'' else if flt x 0 then ''Decreasing'' else ''Stable'')"

definition trend_column :: "weekly_row list \<Rightarrow> string list" where
  "trend_column weekly =
     (if 2 \<le> length weekly
      then map trend_of (diff (map Weekly_Quantity_Sold weekly))
      else replicate (length weekly) ''Insufficient Data'')"

record trend_row = weekly_row +
  Trend :: string

definition with_trend :: "weekly_row list \<Rightarrow> trend_row list" where
  "with_trend weekly =
     map2 (\<lambda>w t. \<lparr>Year = Year w, Week = Week w, Weekly_Quantity_Sold = Weekly_Quantity_Sold w,
                  Weekly_Revenue = Weekly_Revenue w, Week_Start = Week_Start w, Trend = t\<rparr>)
          weekly (trend_column weekly)"

text \<open>
  \<^verbatim>\<open>total_revenue = sales['Revenue'].sum()\<close> and
  \<^verbatim>\<open>sales.groupby('Name')['Revenue'].sum() / total_revenue * 100\<close>
\<close>

definition total_revenue :: "sale_row list \<Rightarrow> rat" where
  "total_revenue rows = sum_list (map Revenue rows)"

definition revenue_contribution :: "sale_row list \<Rightarrow> (string \<times> fval) list" where
  "revenue_contribution rows =
     map (\<lambda>(n, v). (n, fmul (fdiv v (total_revenue rows)) 100))
         (group_sum Sale_Name Revenue rows)"

text \<open>
  \<^verbatim>\<open>recent_sales = sales[sales['Sale Date'] >= datetime.now() - timedelta(days=30)]\<close>;
  the clock is the argument \<open>now\<close>.
\<close>

definition recent_sales :: "timestamp \<Rightarrow> sale_row list \<Rightarrow> sale_row list" where
  "recent_sales now rows =
     filter (\<lambda>r. ts_ordinal now - timedelta_days 30 \<le> ts_ordinal (Sale_Date r)) rows"

text \<open>\<^verbatim>\<open>sales_velocity = recent_sales.groupby('Name')['Quantity Sold'].sum() / 30\<close>\<close>

definition sales_velocity :: "timestamp \<Rightarrow> sale_row list \<Rightarrow> (string \<times> rat) list" where
  "sales_velocity now rows =
     map (\<lambda>(n, q). (n, of_int q / 30)) (group_sum Sale_Name Quantity_Sold (recent_sales now rows))"

text \<open>
  \<^verbatim>\<open>lambda x: 'Urgent' if x < 7 else 'Moderate' if x < 14 else 'Low'\<close>
\<close>

definition restock_urgency :: "fval \<Rightarrow> string" where
  "restock_urgency x = (if flt x 7 then ''Urgent'' else if flt x 14 then ''Moderate'' else ''Low'')"

text \<open>
  A row of \<^verbatim>\<open>restock_recommendations\<close>: the product frame with the merged column
  \<^verbatim>\<open>Quantity Sold\<close> of \<^verbatim>\<open>sales_velocity\<close> (here \<open>Velocity\<close>) and the two derived columns.
\<close>

record restock_row = product_row +
  Velocity :: rat
  Days_to_Depletion :: fval
  Restock_Urgency :: string

text \<open>
  \<^verbatim>\<open>products.merge(sales_velocity, on='Name', how='left').fillna(0)\<close>: every product row
  is kept; a name without an entry in \<^verbatim>\<open>sales_velocity\<close> gets NaN, which \<^verbatim>\<open>fillna\<close>
  turns into 0.
\<close>

definition merged_velocity :: "(string \<times> rat) list \<Rightarrow> string \<Rightarrow> rat" where
  "merged_velocity velocity n = (case map_of velocity n of None \<Rightarrow> 0 | Some v \<Rightarrow> v)"

text \<open>
  The dtype of the merged column \<^verbatim>\<open>Quantity Sold\<close>. With at least one row in the sales
  frame its \<^verbatim>\<open>Quantity Sold\<close> is an integer column, the sum divided by 30 is a float column,
  and so is the merged column after \<^verbatim>\<open>fillna(0)\<close>. With an empty sales frame the column is
  \<^verbatim>\<open>object\<close> from the start and stays so: \<^verbatim>\<open>fillna(0)\<close> puts the Python integer 0 into every
  row (pandas 3 no longer converts an object column that it has filled; earlier versions
  did, and divided as for a float column).
\<close>

definition velocity_dtype :: "sale_row list \<Rightarrow> dtype" where
  "velocity_dtype rows = (if rows = [] then Object else Float64)"

text \<open>
  \<^verbatim>\<open>restock_recommendations['Quantity'] / restock_recommendations['Quantity Sold']\<close>,
  for one row.
\<close>

definition divide_quantity :: "dtype \<Rightarrow> int \<Rightarrow> rat \<Rightarrow> py_error + fval" where
  "divide_quantity dt q v =
     (case dt of
        Float64 \<Rightarrow> Inr (fdiv (of_int q) v)
      | Object \<Rightarrow> if v = 0 then Inl ZeroDivisionError else Inr (Fin (of_int q / v)))"

definition restock_of ::
  "dtype \<Rightarrow> (string \<times> rat) list \<Rightarrow> product_row \<Rightarrow> py_error + restock_row" where
  "restock_of dt velocity r =
     (let v = merged_velocity velocity (Name r)
      in case divide_quantity dt (Quantity r) v of
           Inl e \<Rightarrow> Inl e
         | Inr d \<Rightarrow>
             Inr \<lparr>ID = ID r, Name = Name r, Price = Price r, Quantity = Quantity r,
                  Stock_Status = Stock_Status r, Velocity = v, Days_to_Depletion = d,
                  Restock_Urgency = restock_urgency d\<rparr>)"

text \<open>A column operation raises as soon as one of its rows does.\<close>

fun collect :: "('e + 'a) list \<Rightarrow> 'e + 'a list" where
  "collect [] = Inr []"
| "collect (x # xs) =
     (case x of
        Inl e \<Rightarrow> Inl e
      | Inr a \<Rightarrow> (case collect xs of Inl e \<Rightarrow> Inl e | Inr as \<Rightarrow> Inr (a # as)))"

definition restock_recommendations :: "timestamp \<Rightarrow> shop_db \<Rightarrow> py_error + restock_row list" where
  "restock_recommendations now db =
     collect (map (restock_of (velocity_dtype (get_sales db)) (sales_velocity now (get_sales db)))
                  (get_products db))"

text \<open>\<^verbatim>\<open>products[products['Quantity'] < 5][['Name', 'Quantity', 'Stock Status']]\<close>\<close>

definition low_stock :: "shop_db \<Rightarrow> (string \<times> int \<times> string) list" where
  "low_stock db =
     map (\<lambda>r. (Name r, Quantity r, Stock_Status r)) (filter (\<lambda>r. Quantity r < 5) (get_products db))"

text \<open>
  The views that \<^verbatim>\<open>get_insights\<close> returns, without \<^verbatim>\<open>top_products\<close> (whose order among
  equal totals is that of an unstable sort). The division of the restock view is the one
  step that can raise; when it does, \<^verbatim>\<open>get_insights\<close> raises and returns no view at all.
\<close>

record insights =
  insights_low_stock :: "(string \<times> int \<times> string) list"
  insights_weekly_sales :: "trend_row list"
  insights_revenue_contribution :: "(string \<times> fval) list"
  insights_restock_recommendations :: "restock_row list"

definition get_insights :: "timestamp \<Rightarrow> shop_db \<Rightarrow> py_error + insights" where
  "get_insights now db =
     (case restock_recommendations now db of
        Inl e \<Rightarrow> Inl e
      | Inr restock \<Rightarrow>
          Inr \<lparr>insights_low_stock = low_stock db,
               insights_weekly_sales = with_trend (get_weekly_sales db),
               insights_revenue_contribution = revenue_contribution (get_sales db),
               insights_restock_recommendations = restock\<rparr>)"

section \<open>Example databases\<close>

definition noon :: "int \<Rightarrow> int \<Rightarrow> int \<Rightarrow> timestamp" where
  "noon y m d =
     \<lparr>ts_year = y, ts_month = m, ts_day = d, ts_hour = 12, ts_minute = 0, ts_second = 0,
      ts_microsecond = 0\<rparr>"

text \<open>Three products at the boundaries of the stock thresholds, no sale.\<close>

definition shelf_db :: shop_db where
  "shelf_db =
     \<lparr>products =
        [\<lparr>p_id = ''p0'', p_name = ''A'', p_price = 10, p_quantity = 0\<rparr>,
         \<lparr>p_id = ''p4'', p_name = ''B'', p_price = 5 / 2, p_quantity = 4\<rparr>,
         \<lparr>p_id = ''p5'', p_name = ''C'', p_price = 3, p_quantity = 5\<rparr>],
      sales = []\<rparr>"

text \<open>A product whose quantity has gone below zero, never sold in the last 30 days.\<close>

definition overdrawn_db :: shop_db where
  "overdrawn_db =
     \<lparr>products = [\<lparr>p_id = ''p1'', p_name = ''A'', p_price = 10, p_quantity = - 1\<rparr>],
      sales = []\<rparr>"

text \<open>
  Sales in ISO weeks 2024-W51 (4 units), 2024-W52 (3 units) and 2025-W02 (3 units and
  2 units), and one sale that refers to no product.
\<close>

definition winter_db :: shop_db where
  "winter_db =
     \<lparr>products =
        [\<lparr>p_id = ''p1'', p_name = ''A'', p_price = 10, p_quantity = 2\<rparr>,
         \<lparr>p_id = ''p2'', p_name = ''B'', p_price = 5 / 2, p_quantity = 40\<rparr>,
         \<lparr>p_id = ''p3'', p_name = ''C'', p_price = 3, p_quantity = 0\<rparr>],
      sales =
        [\<lparr>s_id = ''s1'', s_product_id = ''p1'', s_quantity_sold = 3, s_sale_date = noon 2024 12 25\<rparr>,
         \<lparr>s_id = ''s2'', s_product_id = ''p2'', s_quantity_sold = 3, s_sale_date = noon 2025 1 8\<rparr>,
         \<lparr>s_id = ''s3'', s_product_id = ''p9'', s_quantity_sold = 7, s_sale_date = noon 2025 1 8\<rparr>,
         \<lparr>s_id = ''s4'', s_product_id = ''p2'', s_quantity_sold = 4, s_sale_date = noon 2024 12 18\<rparr>,
         \<lparr>s_id = ''s5'', s_product_id = ''p1'', s_quantity_sold = 2, s_sale_date = noon 2025 1 6\<rparr>]\<rparr>"

text \<open>A single sale, on Tuesday 31 December 2024, which lies in ISO week 1 of 2025.\<close>

definition new_year_db :: shop_db where
  "new_year_db =
     \<lparr>products = [\<lparr>p_id = ''p1'', p_name = ''A'', p_price = 10, p_quantity = 2\<rparr>],
      sales =
        [\<lparr>s_id = ''s1'', s_product_id = ''p1'', s_quantity_sold = 5, s_sale_date = noon 2024 12 31\<rparr>]\<rparr>"

text \<open>
  Two sales of one product almost a year apart: on Wednesday 3 January 2024 (ISO week 1 of
  2024) and on Tuesday 31 December 2024 (ISO week 1 of 2025).
\<close>

definition year_ends_db :: shop_db where
  "year_ends_db =
     \<lparr>products = [\<lparr>p_id = ''p1'', p_name = ''A'', p_price = 10, p_quantity = 2\<rparr>],
      sales =
        [\<lparr>s_id = ''s1'', s_product_id = ''p1'', s_quantity_sold = 2, s_sale_date = noon 2024 1 3\<rparr>,
         \<lparr>s_id = ''s2'', s_product_id = ''p1'', s_quantity_sold = 5, s_sale_date = noon 2024 12 31\<rparr>]\<rparr>"

text \<open>
  Two products that carry the same name. Only the first has been sold: 30 units on
  5 January 2025.
\<close>

definition twins_db :: shop_db where
  "twins_db =
     \<lparr>products =
        [\<lparr>p_id = ''p1'', p_name = ''A'', p_price = 10, p_quantity = 50\<rparr>,
         \<lparr>p_id = ''p2'', p_name = ''A'', p_price = 12, p_quantity = 3\<rparr>],
      sales =
        [\<lparr>s_id = ''s1'', s_product_id = ''p1'', s_quantity_sold = 30, s_sale_date = noon 2025 1 5\<rparr>]\<rparr>"

section \<open>Properties of the stock classifier\<close>

lemma get_products_row:
  "r \<in> set (get_products db) \<Longrightarrow> Stock_Status r = stock_status (Quantity r)"
  by (auto simp: get_products_def)

lemma get_products_Quantity:
  "map Quantity (get_products db) = map p_quantity (products db)"
  by (simp add: get_products_def comp_def)

text \<open>
  C8. Every row of the product frame carries a status that depends on its quantity alone,
  with the thresholds exact at the boundaries: quantity 0 gives \<open>Out of Stock\<close>, a quantity
  strictly between 0 and 5 gives \<open>Low Stock\<close>, a quantity of 5 or more gives \<open>In Stock\<close>.
\<close>

theorem stock_status_boundaries:
  assumes "r \<in> set (get_products db)"
  shows "(Quantity r = 0 \<longrightarrow> Stock_Status r = ''Out of Stock'')
       \<and> (0 < Quantity r \<and> Quantity r < 5 \<longrightarrow> Stock_Status r = ''Low Stock'')
       \<and> (5 \<le> Quantity r \<longrightarrow> Stock_Status r = ''In Stock'')"
  using get_products_row [OF assms] by (simp add: stock_status_def)

theorem stock_status_boundaries_witness:
  "get_products shelf_db ! 0 \<in> set (get_products shelf_db)
   \<and> Quantity (get_products shelf_db ! 0) = 0
   \<and> Stock_Status (get_products shelf_db ! 0) = ''Out of Stock''
   \<and> get_products shelf_db ! 1 \<in> set (get_products shelf_db)
   \<and> Quantity (get_products shelf_db ! 1) = 4
   \<and> Stock_Status (get_products shelf_db ! 1) = ''Low Stock''
   \<and> get_products shelf_db ! 2 \<in> set (get_products shelf_db)
   \<and> Quantity (get_products shelf_db ! 2) = 5
   \<and> Stock_Status (get_products shelf_db ! 2) = ''In Stock''"
proof -
  have m0: "get_products shelf_db ! 0 \<in> set (get_products shelf_db)"
    and m1: "get_products shelf_db ! 1 \<in> set (get_products shelf_db)"
    and m2: "get_products shelf_db ! 2 \<in> set (get_products shelf_db)"
    by (simp_all add: get_products_def shelf_db_def)
  have q: "Quantity (get_products shelf_db ! 0) = 0" "Quantity (get_products shelf_db ! 1) = 4"
    "Quantity (get_products shelf_db ! 2) = 5"
    by (simp_all add: get_products_def shelf_db_def)
  show ?thesis
    using m0 m1 m2 q stock_status_boundaries [OF m0] stock_status_boundaries [OF m1]
      stock_status_boundaries [OF m2]
    by simp
qed

text \<open>
  C10. The classifier is total over the integers: a row whose quantity is negative has
  status \<open>Low Stock\<close>; the status is \<open>Out of Stock\<close> at quantity 0 and nowhere else, and
  every other quantity below 5 gives \<open>Low Stock\<close>.
\<close>

theorem negative_quantity_low_stock:
  assumes "r \<in> set (get_products db)"
  shows "(Quantity r < 0 \<longrightarrow> Stock_Status r = ''Low Stock'')
       \<and> (Stock_Status r = ''Out of Stock'' \<longleftrightarrow> Quantity r = 0)
       \<and> (Quantity r \<noteq> 0 \<and> Quantity r < 5 \<longrightarrow> Stock_Status r = ''Low Stock'')"
  using get_products_row [OF assms] by (simp add: stock_status_def)

theorem negative_quantity_low_stock_witness:
  "get_products overdrawn_db ! 0 \<in> set (get_products overdrawn_db)
   \<and> Quantity (get_products overdrawn_db ! 0) < 0
   \<and> Stock_Status (get_products overdrawn_db ! 0) = ''Low Stock''"
proof -
  have m: "get_products overdrawn_db ! 0 \<in> set (get_products overdrawn_db)"
    by (simp add: get_products_def overdrawn_db_def)
  have q: "Quantity (get_products overdrawn_db ! 0) < 0"
    by (simp add: get_products_def overdrawn_db_def)
  show ?thesis using m q negative_quantity_low_stock [OF m] by simp
qed

section \<open>Properties of the sale aggregator\<close>

lemma get_sales_iff:
  "r \<in> set (get_sales db) \<longleftrightarrow>
     (\<exists>s \<in> set (sales db). \<exists>p \<in> set (products db). s_product_id s = p_id p \<and> r = join_row s p)"
  by (auto simp: get_sales_def)

lemma join_row_fields:
  "Sale_ID (join_row s p) = s_id s"
  "Sale_Name (join_row s p) = p_name p"
  "Quantity_Sold (join_row s p) = s_quantity_sold s"
  "Sale_Date (join_row s p) = s_sale_date s"
  "Sale_Price (join_row s p) = p_price p"
  "Revenue (join_row s p) = of_int (s_quantity_sold s) * p_price p"
  by (simp_all add: join_row_def)

lemma winter_sales:
  "map (\<lambda>r. (Sale_ID r, Quantity_Sold r, Sale_Price r, Revenue r)) (get_sales winter_db)
     = [(''s1'', 3, 10, 30), (''s2'', 3, 5 / 2, 15 / 2), (''s4'', 4, 5 / 2, 10), (''s5'', 2, 10, 20)]"
  by code_simp

text \<open>
  C7. Every row of the sales frame has a revenue equal to its quantity sold times its
  price, and that price is the one the joined product has in the product table at the time
  of the query: the sale table stores no price of its own.
\<close>

theorem revenue_is_quantity_times_current_price:
  assumes "r \<in> set (get_sales db)"
  shows "Revenue r = of_int (Quantity_Sold r) * Sale_Price r
       \<and> (\<exists>s \<in> set (sales db). \<exists>p \<in> set (products db).
            s_product_id s = p_id p \<and> Sale_ID r = s_id s
            \<and> Quantity_Sold r = s_quantity_sold s \<and> Sale_Price r = p_price p
            \<and> Revenue r = of_int (s_quantity_sold s) * p_price p)"
proof -
  from assms obtain s p where sp: "s \<in> set (sales db)" "p \<in> set (products db)"
    "s_product_id s = p_id p" "r = join_row s p"
    by (auto simp: get_sales_iff)
  then show ?thesis by (auto simp: join_row_fields)
qed

theorem revenue_is_quantity_times_current_price_witness:
  "get_sales winter_db ! 1 \<in> set (get_sales winter_db)
   \<and> Revenue (get_sales winter_db ! 1)
       = of_int (Quantity_Sold (get_sales winter_db ! 1)) * Sale_Price (get_sales winter_db ! 1)
   \<and> Revenue (get_sales winter_db ! 1) = 15 / 2"
proof -
  have len: "length (get_sales winter_db) = 4"
    using arg_cong [OF winter_sales, of length] by simp
  then have m: "get_sales winter_db ! 1 \<in> set (get_sales winter_db)" by simp
  have "map Revenue (get_sales winter_db) = [30, 15 / 2, 10, 20]"
    using arg_cong [OF winter_sales, of "map (\<lambda>t. snd (snd (snd t)))"] by (simp add: comp_def)
  then have "map Revenue (get_sales winter_db) ! 1 = 15 / 2" by simp
  then have v: "Revenue (get_sales winter_db ! 1) = 15 / 2" using len by simp
  show ?thesis
    using m v revenue_is_quantity_times_current_price [OF m] by simp
qed

text \<open>
  C5. A sale whose product identifier matches no product contributes no row to the sales
  frame (sale identifiers are the primary key of the table, hence distinct): no row carries
  its identifier, and the frame is the same as for the table without that sale, and the same
  as for the table with every unmatched sale removed beforehand, so that aggregating again
  after the filtering yields the same rows.
\<close>

theorem orphan_sale_dropped:
  assumes "s \<in> set (sales db)"
      and "s_product_id s \<notin> p_id ` set (products db)"
      and "distinct (map s_id (sales db))"
  shows "(\<forall>r \<in> set (get_sales db). Sale_ID r \<noteq> s_id s)
       \<and> get_sales (db\<lparr>sales := removeAll s (sales db)\<rparr>) = get_sales db
       \<and> get_sales (db\<lparr>sales := filter (\<lambda>x. s_product_id x \<in> p_id ` set (products db)) (sales db)\<rparr>)
           = get_sales db"
proof (intro conjI ballI)
  fix r assume "r \<in> set (get_sales db)"
  then obtain s' p where sp: "s' \<in> set (sales db)" "p \<in> set (products db)"
    "s_product_id s' = p_id p" "r = join_row s' p"
    by (auto simp: get_sales_iff)
  with assms(2) have "s' \<noteq> s" by auto
  with assms(1,3) sp(1) have "s_id s' \<noteq> s_id s"
    by (auto simp: distinct_map inj_on_def)
  with sp(4) show "Sale_ID r \<noteq> s_id s" by (simp add: join_row_fields)
next
  have orphan: "filter (\<lambda>p. s_product_id s = p_id p) (products db) = []"
    using assms(2) by (auto simp: filter_empty_conv)
  have "\<And>ss. concat (map (\<lambda>x. map (join_row x) (filter (\<lambda>p. s_product_id x = p_id p) (products db)))
            (removeAll s ss))
      = concat (map (\<lambda>x. map (join_row x) (filter (\<lambda>p. s_product_id x = p_id p) (products db))) ss)"
    subgoal for ss using orphan by (induction ss) auto
    done
  then show "get_sales (db\<lparr>sales := removeAll s (sales db)\<rparr>) = get_sales db"
    by (simp add: get_sales_def)
next
  have "\<And>ss. concat (map (\<lambda>x. map (join_row x) (filter (\<lambda>p. s_product_id x = p_id p) (products db)))
            (filter (\<lambda>x. s_product_id x \<in> p_id ` set (products db)) ss))
      = concat (map (\<lambda>x. map (join_row x) (filter (\<lambda>p. s_product_id x = p_id p) (products db))) ss)"
    subgoal for ss by (induction ss) (auto simp: filter_empty_conv)
    done
  then show "get_sales (db\<lparr>sales := filter (\<lambda>x. s_product_id x \<in> p_id ` set (products db)) (sales db)\<rparr>)
      = get_sales db"
    by (simp add: get_sales_def)
qed

theorem orphan_sale_dropped_witness:
  "sales winter_db ! 2 \<in> set (sales winter_db)
   \<and> s_product_id (sales winter_db ! 2) \<notin> p_id ` set (products winter_db)
   \<and> distinct (map s_id (sales winter_db))
   \<and> s_id (sales winter_db ! 2) = ''s3''
   \<and> ''s3'' \<notin> Sale_ID ` set (get_sales winter_db)
   \<and> get_sales (winter_db\<lparr>sales := removeAll (sales winter_db ! 2) (sales winter_db)\<rparr>)
       = get_sales winter_db"
proof -
  have a: "sales winter_db ! 2 \<in> set (sales winter_db)" by (simp add: winter_db_def)
  have b: "s_product_id (sales winter_db ! 2) \<notin> p_id ` set (products winter_db)"
    by (simp add: winter_db_def)
  have c: "distinct (map s_id (sales winter_db))" by (simp add: winter_db_def)
  have d: "s_id (sales winter_db ! 2) = ''s3''" by (simp add: winter_db_def)
  from orphan_sale_dropped [OF a b c] d
  have "\<forall>r \<in> set (get_sales winter_db). Sale_ID r \<noteq> ''s3''"
    and "get_sales (winter_db\<lparr>sales := removeAll (sales winter_db ! 2) (sales winter_db)\<rparr>)
       = get_sales winter_db"
    by simp_all
  then show ?thesis using a b c d by auto
qed

section \<open>Properties of the weekly rollup\<close>

lemma sum_list_indicator:
  fixes v :: "'v::comm_monoid_add"
  shows "distinct ks \<Longrightarrow> sum_list (map (\<lambda>k. if a = k then v else 0) ks) = (if a \<in> set ks then v else 0)"
  by (induction ks) auto

lemma sum_list_groups:
  fixes val :: "'r \<Rightarrow> 'v::comm_monoid_add"
  assumes "distinct ks"
  shows "key ` set rows \<subseteq> set ks \<Longrightarrow>
     sum_list (map (\<lambda>k. sum_list (map val (group_rows key rows k))) ks) = sum_list (map val rows)"
proof (induction rows)
  case Nil
  then show ?case by (simp add: group_rows_def)
next
  case (Cons r rows)
  have "(\<lambda>k. sum_list (map val (group_rows key (r # rows) k)))
      = (\<lambda>k. (if key r = k then val r else 0) + sum_list (map val (group_rows key rows k)))"
    by (auto simp: group_rows_def fun_eq_iff)
  then have "sum_list (map (\<lambda>k. sum_list (map val (group_rows key (r # rows) k))) ks)
      = sum_list (map (\<lambda>k. if key r = k then val r else 0) ks)
        + sum_list (map (\<lambda>k. sum_list (map val (group_rows key rows k))) ks)"
    by (simp add: sum_list_addf)
  also have "sum_list (map (\<lambda>k. if key r = k then val r else 0) ks) = val r"
    using Cons.prems by (simp add: sum_list_indicator [OF assms])
  finally show ?case using Cons by simp
qed

lemma group_keys_props:
  "sorted (group_keys key rows)" "distinct (group_keys key rows)"
  "set (group_keys key rows) = key ` set rows"
  by (simp_all add: group_keys_def)

lemma weekly_of_keys:
  "map (\<lambda>w. (Year w, Week w)) (weekly_of rows) = group_keys year_week rows"
  by (simp add: weekly_of_def comp_def)

lemma weekly_of_quantity:
  "sum_list (map Weekly_Quantity_Sold (weekly_of rows)) = sum_list (map Quantity_Sold rows)"
proof -
  have "map Weekly_Quantity_Sold (weekly_of rows)
      = map (\<lambda>k. sum_list (map Quantity_Sold (group_rows year_week rows k))) (group_keys year_week rows)"
    by (simp add: weekly_of_def comp_def)
  moreover have "sum_list (map (\<lambda>k. sum_list (map Quantity_Sold (group_rows year_week rows k)))
        (group_keys year_week rows)) = sum_list (map Quantity_Sold rows)"
    by (rule sum_list_groups) (simp_all add: group_keys_props)
  ultimately show ?thesis by simp
qed

text \<open>
  C6. The weekly frame is sorted ascending by its key (\<open>Year\<close>, \<open>Week\<close>) and no key occurs
  twice; the \<open>Quantity Sold\<close> totals of the buckets add up to the quantity sold over all
  rows of the sales frame; an empty sales frame gives an empty weekly frame.
\<close>

theorem weekly_rollup_sorted_and_total:
  "sorted (map (\<lambda>w. (Year w, Week w)) (get_weekly_sales db))
   \<and> distinct (map (\<lambda>w. (Year w, Week w)) (get_weekly_sales db))
   \<and> sum_list (map Weekly_Quantity_Sold (get_weekly_sales db))
       = sum_list (map Quantity_Sold (get_sales db))
   \<and> (get_sales db = [] \<longrightarrow> get_weekly_sales db = [])"
proof (intro conjI impI)
  show "sorted (map (\<lambda>w. (Year w, Week w)) (get_weekly_sales db))"
    by (simp only: get_weekly_sales_def weekly_of_keys group_keys_props)
  show "distinct (map (\<lambda>w. (Year w, Week w)) (get_weekly_sales db))"
    by (simp only: get_weekly_sales_def weekly_of_keys group_keys_props)
  show "sum_list (map Weekly_Quantity_Sold (get_weekly_sales db))
       = sum_list (map Quantity_Sold (get_sales db))"
    by (simp only: get_weekly_sales_def weekly_of_quantity)
  assume "get_sales db = []"
  then show "get_weekly_sales db = []"
    by (simp add: get_weekly_sales_def weekly_of_def group_keys_def)
qed

theorem weekly_rollup_sorted_and_total_witness:
  "get_sales shelf_db = [] \<and> get_weekly_sales shelf_db = []
   \<and> sum_list (map Weekly_Quantity_Sold (get_weekly_sales winter_db)) = 12"
proof -
  have e: "get_sales shelf_db = []" by (simp add: get_sales_def shelf_db_def)
  have "sum_list (map (\<lambda>t. fst (snd t))
      (map (\<lambda>r. (Sale_ID r, Quantity_Sold r, Sale_Price r, Revenue r)) (get_sales winter_db))) = 12"
    by (simp only: winter_sales) simp
  then have t: "sum_list (map Quantity_Sold (get_sales winter_db)) = 12" by (simp add: comp_def)
  show ?thesis
    using e t weekly_rollup_sorted_and_total [of shelf_db]
      weekly_rollup_sorted_and_total [of winter_db]
    by simp
qed

text \<open>
  C1. The bucket key of a sale is meant to be the ISO-8601 (year, week) of its timestamp.
  The key the code builds takes the week from \<^verbatim>\<open>isocalendar()\<close> but the year from
  \<^verbatim>\<open>dt.year\<close>, the calendar year. For a sale on 31 December 2024, whose ISO calendar is
  week 1 of 2025, the bucket is (2024, 1); together with a sale of 3 January 2024 it ends
  up in one and the same bucket, labelled with the January date.
\<close>

theorem december_31_bucket_year:
  "isocalendar (noon 2024 12 31) = (2025, 1, 2)
   \<and> map (\<lambda>w. (Year w, Week w)) (get_weekly_sales new_year_db) = [(2024, 1)]
   \<and> map (\<lambda>r. (iso_year (Sale_Date r), iso_week (Sale_Date r))) (get_sales year_ends_db)
       = [(2024, 1), (2025, 1)]
   \<and> map (\<lambda>w. (Year w, Week w, Weekly_Quantity_Sold w, Week_Start w)) (get_weekly_sales year_ends_db)
       = [(2024, 1, 7, Some ''2024-01-03'')]"
  by code_simp

section \<open>When \<^verbatim>\<open>get_insights\<close> returns\<close>

text \<open>
  With at least one row in the sales frame every division is a float division and
  \<^verbatim>\<open>get_insights\<close> returns its views. With an empty sales frame and at least one
  product it raises \<^verbatim>\<open>ZeroDivisionError\<close> in the restock division.
\<close>

lemma collect_map_Inr: "collect (map (\<lambda>x. Inr (f x)) xs) = Inr (map f xs)"
  by (induction xs) simp_all

lemma restock_of_Float64:
  "restock_of Float64 velocity r =
     Inr \<lparr>ID = ID r, Name = Name r, Price = Price r, Quantity = Quantity r,
          Stock_Status = Stock_Status r, Velocity = merged_velocity velocity (Name r),
          Days_to_Depletion = fdiv (of_int (Quantity r)) (merged_velocity velocity (Name r)),
          Restock_Urgency =
            restock_urgency (fdiv (of_int (Quantity r)) (merged_velocity velocity (Name r)))\<rparr>"
  by (simp add: restock_of_def divide_quantity_def Let_def)

lemma restock_recommendations_float:
  assumes "get_sales db \<noteq> []"
  shows "restock_recommendations now db =
     Inr (map (\<lambda>r. \<lparr>ID = ID r, Name = Name r, Price = Price r, Quantity = Quantity r,
            Stock_Status = Stock_Status r,
            Velocity = merged_velocity (sales_velocity now (get_sales db)) (Name r),
            Days_to_Depletion =
              fdiv (of_int (Quantity r)) (merged_velocity (sales_velocity now (get_sales db)) (Name r)),
            Restock_Urgency =
              restock_urgency
                (fdiv (of_int (Quantity r))
                   (merged_velocity (sales_velocity now (get_sales db)) (Name r)))\<rparr>)
          (get_products db))"
proof -
  have "restock_of Float64 (sales_velocity now (get_sales db)) =
      (\<lambda>r. Inr \<lparr>ID = ID r, Name = Name r, Price = Price r, Quantity = Quantity r,
            Stock_Status = Stock_Status r,
            Velocity = merged_velocity (sales_velocity now (get_sales db)) (Name r),
            Days_to_Depletion =
              fdiv (of_int (Quantity r)) (merged_velocity (sales_velocity now (get_sales db)) (Name r)),
            Restock_Urgency =
              restock_urgency
                (fdiv (of_int (Quantity r))
                   (merged_velocity (sales_velocity now (get_sales db)) (Name r)))\<rparr>)"
    by (rule ext) (rule restock_of_Float64)
  then show ?thesis
    using assms
    by (simp only: restock_recommendations_def velocity_dtype_def collect_map_Inr if_False)
qed

lemma sales_velocity_empty: "sales_velocity now [] = []"
  by (simp add: sales_velocity_def recent_sales_def group_sum_def group_keys_def)

lemma restock_of_Object_empty: "restock_of Object [] r = Inl ZeroDivisionError"
  by (simp add: restock_of_def divide_quantity_def merged_velocity_def)

lemma restock_recommendations_raises:
  assumes "get_sales db = []" and "products db \<noteq> []"
  shows "restock_recommendations now db = Inl ZeroDivisionError"
proof -
  from assms(2) obtain p ps where "products db = p # ps" by (cases "products db") auto
  then show ?thesis
    using assms(1)
    by (simp add: restock_recommendations_def velocity_dtype_def sales_velocity_empty
        get_products_def restock_of_Object_empty)
qed

lemma restock_recommendations_no_products:
  "products db = [] \<Longrightarrow> restock_recommendations now db = Inr []"
  by (simp add: restock_recommendations_def get_products_def)

lemma get_insights_views:
  assumes "get_insights now db = Inr ins"
  shows "insights_weekly_sales ins = with_trend (get_weekly_sales db)"
    and "insights_revenue_contribution ins = revenue_contribution (get_sales db)"
    and "restock_recommendations now db = Inr (insights_restock_recommendations ins)"
  using assms by (auto simp: get_insights_def split: sum.splits)

lemma get_insights_returns:
  assumes "get_sales db \<noteq> []"
  shows "\<exists>ins. get_insights now db = Inr ins"
  by (simp add: get_insights_def restock_recommendations_float [OF assms])

lemma get_insights_raises:
  assumes "get_sales db = []" and "products db \<noteq> []"
  shows "get_insights now db = Inl ZeroDivisionError"
  by (simp add: get_insights_def restock_recommendations_raises [OF assms])

lemma weekly_needs_sales: "get_weekly_sales db \<noteq> [] \<Longrightarrow> get_sales db \<noteq> []"
  by (auto simp: get_weekly_sales_def weekly_of_def group_keys_def)

section \<open>Properties of the trend column\<close>

lemma length_diff: "length (diff xs) = length xs"
  by (cases xs) simp_all

lemma diff_nth_0: "xs \<noteq> [] \<Longrightarrow> diff xs ! 0 = NaN"
  by (cases xs) simp_all

lemma diff_nth_pos:
  assumes "0 < i" "i < length xs"
  shows "diff xs ! i = Fin (of_int (xs ! i - xs ! (i - 1)))"
proof (cases xs)
  case Nil
  with assms show ?thesis by simp
next
  case (Cons x ys)
  from assms obtain j where j: "i = Suc j" by (cases i) auto
  with assms Cons have "j < length ys" by simp
  then show ?thesis using Cons j by (simp add: nth_Cons')
qed

lemma length_trend_column: "length (trend_column weekly) = length weekly"
  by (simp add: trend_column_def length_diff)

lemma length_with_trend: "length (with_trend weekly) = length weekly"
  by (simp add: with_trend_def length_trend_column)

lemma with_trend_nth:
  assumes "i < length weekly"
  shows "Trend (with_trend weekly ! i) = trend_column weekly ! i"
    and "Weekly_Quantity_Sold (with_trend weekly ! i) = Weekly_Quantity_Sold (weekly ! i)"
    and "Year (with_trend weekly ! i) = Year (weekly ! i)"
    and "Week (with_trend weekly ! i) = Week (weekly ! i)"
  using assms by (simp_all add: with_trend_def length_trend_column)

lemma trend_of_NaN: "trend_of NaN = ''Stable''"
  by (simp add: trend_of_def)

lemma trend_of_Fin:
  "trend_of (Fin (of_int b - of_int a)) =
     (if a < b then ''Increasing'' else if b < a then ''Decreasing'' else ''Stable'')"
  by (simp add: trend_of_def)

lemma trend_column_short:
  "length weekly < 2 \<Longrightarrow> t \<in> set (trend_column weekly) \<Longrightarrow> t = ''Insufficient Data''"
  by (simp add: trend_column_def)

lemma trend_column_first:
  assumes "2 \<le> length weekly"
  shows "trend_column weekly ! 0 = ''Stable''"
proof -
  from assms have ne: "map Weekly_Quantity_Sold weekly \<noteq> []" by (cases weekly) simp_all
  from assms have "0 < length weekly" by linarith
  then have "0 < length (diff (map Weekly_Quantity_Sold weekly))"
    by (simp add: length_diff)
  then have "map trend_of (diff (map Weekly_Quantity_Sold weekly)) ! 0
      = trend_of (diff (map Weekly_Quantity_Sold weekly) ! 0)"
    by (rule nth_map)
  with assms show ?thesis
    by (simp add: trend_column_def diff_nth_0 [OF ne] trend_of_NaN)
qed

lemma trend_column_later:
  assumes "2 \<le> length weekly" "0 < i" "i < length weekly"
  shows "trend_column weekly ! i =
     (if Weekly_Quantity_Sold (weekly ! (i - 1)) < Weekly_Quantity_Sold (weekly ! i) then ''Increasing''
      else if Weekly_Quantity_Sold (weekly ! i) < Weekly_Quantity_Sold (weekly ! (i - 1)) then ''Decreasing''
      else ''Stable'')"
  using assms
  by (simp add: trend_column_def length_diff diff_nth_pos trend_of_Fin)

lemma winter_weekly:
  "map (\<lambda>w. (Year w, Week w, Weekly_Quantity_Sold w)) (get_weekly_sales winter_db)
     = [(2024, 51, 4), (2024, 52, 3), (2025, 2, 5)]"
  by code_simp

lemma new_year_weekly:
  "map (\<lambda>w. (Year w, Week w, Weekly_Quantity_Sold w)) (get_weekly_sales new_year_db)
     = [(2024, 1, 5)]"
  by code_simp

lemma length_winter: "length (get_weekly_sales winter_db) = 3"
  using arg_cong [OF winter_weekly, of length] by simp

lemma length_new_year: "length (get_weekly_sales new_year_db) = 1"
  using arg_cong [OF new_year_weekly, of length] by simp

text \<open>
  C2. The weekly view of \<^verbatim>\<open>get_insights\<close> is the weekly frame with its trend column, and
  it is returned whenever there is a bucket. With fewer than 2 weekly buckets every row of
  it has the trend \<open>Insufficient Data\<close>. With 2 or more, every row that has a predecessor
  has the trend \<open>Increasing\<close> if its quantity sold is strictly greater than that of the row
  before it, \<open>Decreasing\<close> if strictly less, and \<open>Stable\<close> if equal.
\<close>

theorem trend_from_predecessor:
  fixes now :: timestamp and db :: shop_db
  defines "ws \<equiv> with_trend (get_weekly_sales db)"
  shows "(\<forall>ins. get_insights now db = Inr ins \<longrightarrow> insights_weekly_sales ins = ws)
       \<and> (get_weekly_sales db \<noteq> [] \<longrightarrow> (\<exists>ins. get_insights now db = Inr ins))
       \<and> (length (get_weekly_sales db) < 2 \<longrightarrow> (\<forall>r \<in> set ws. Trend r = ''Insufficient Data''))
       \<and> (2 \<le> length (get_weekly_sales db) \<longrightarrow>
            (\<forall>i. 0 < i \<and> i < length ws \<longrightarrow>
               Trend (ws ! i) =
                 (if Weekly_Quantity_Sold (ws ! (i - 1)) < Weekly_Quantity_Sold (ws ! i)
                  then ''Increasing''
                  else if Weekly_Quantity_Sold (ws ! i) < Weekly_Quantity_Sold (ws ! (i - 1))
                  then ''Decreasing''
                  else ''Stable'')))"
proof (intro conjI impI ballI allI)
  fix ins assume "get_insights now db = Inr ins"
  then show "insights_weekly_sales ins = ws"
    by (simp add: ws_def get_insights_views(1))
next
  assume "get_weekly_sales db \<noteq> []"
  then have "get_sales db \<noteq> []" by (rule weekly_needs_sales)
  then show "\<exists>ins. get_insights now db = Inr ins" by (rule get_insights_returns)
next
  fix r assume short: "length (get_weekly_sales db) < 2" and r: "r \<in> set ws"
  from r obtain i where i: "i < length ws" "ws ! i = r" by (auto simp: in_set_conv_nth)
  then have il: "i < length (get_weekly_sales db)"
    by (simp add: ws_def length_with_trend)
  then have "Trend r = trend_column (get_weekly_sales db) ! i"
    using i(2) [symmetric] by (simp add: ws_def with_trend_nth)
  moreover have "trend_column (get_weekly_sales db) ! i \<in> set (trend_column (get_weekly_sales db))"
    using il by (simp add: length_trend_column)
  ultimately show "Trend r = ''Insufficient Data''"
    using trend_column_short [OF short] by simp
next
  fix i assume long: "2 \<le> length (get_weekly_sales db)" and i: "0 < i \<and> i < length ws"
  then have "i < length (get_weekly_sales db)"
    by (simp add: ws_def length_with_trend)
  with i have il: "i < length (get_weekly_sales db)" "i - 1 < length (get_weekly_sales db)"
    by arith+
  show "Trend (ws ! i) =
          (if Weekly_Quantity_Sold (ws ! (i - 1)) < Weekly_Quantity_Sold (ws ! i)
           then ''Increasing''
           else if Weekly_Quantity_Sold (ws ! i) < Weekly_Quantity_Sold (ws ! (i - 1))
           then ''Decreasing''
           else ''Stable'')"
    using il i trend_column_later [OF long, of i]
    by (simp add: ws_def with_trend_nth)
qed

theorem trend_from_predecessor_witness:
  "length (get_weekly_sales new_year_db) < 2
   \<and> (\<exists>ins. get_insights (noon 2025 1 10) new_year_db = Inr ins
         \<and> Trend (insights_weekly_sales ins ! 0) = ''Insufficient Data'')
   \<and> 2 \<le> length (get_weekly_sales winter_db)
   \<and> (\<exists>ins. get_insights (noon 2025 1 10) winter_db = Inr ins
         \<and> Trend (insights_weekly_sales ins ! 1) = ''Decreasing''
         \<and> Trend (insights_weekly_sales ins ! 2) = ''Increasing'')"
proof -
  let ?one = "with_trend (get_weekly_sales new_year_db)"
  let ?ws = "with_trend (get_weekly_sales winter_db)"
  have short: "length (get_weekly_sales new_year_db) < 2" by (simp add: length_new_year)
  have long: "2 \<le> length (get_weekly_sales winter_db)" by (simp add: length_winter)
  have ne1: "get_weekly_sales new_year_db \<noteq> []" using length_new_year by auto
  have ne2: "get_weekly_sales winter_db \<noteq> []" using length_winter by auto
  have "length ?one = 1" by (simp add: length_with_trend length_new_year)
  then have mem: "?one ! 0 \<in> set ?one" by (simp del: One_nat_def)
  have len: "length ?ws = 3" by (simp add: length_with_trend length_winter)
  have "map Weekly_Quantity_Sold (get_weekly_sales winter_db) = [4, 3, 5]"
    using arg_cong [OF winter_weekly, of "map (\<lambda>t. snd (snd t))"] by (simp add: comp_def)
  then have w: "Weekly_Quantity_Sold (get_weekly_sales winter_db ! 0) = 4"
    "Weekly_Quantity_Sold (get_weekly_sales winter_db ! 1) = 3"
    "Weekly_Quantity_Sold (get_weekly_sales winter_db ! 2) = 5"
    using length_winter
    by (metis nth_map nth_Cons_0 zero_less_numeral,
        metis nth_map nth_Cons_0 nth_Cons_Suc One_nat_def one_less_numeral_iff semiring_norm(77),
        metis nth_map nth_Cons_0 nth_Cons_Suc numeral_2_eq_2 lessI numeral_3_eq_3)
  have q: "Weekly_Quantity_Sold (?ws ! 0) = 4" "Weekly_Quantity_Sold (?ws ! 1) = 3"
    "Weekly_Quantity_Sold (?ws ! 2) = 5"
    using w by (simp_all add: with_trend_nth length_winter)
  note thm1 = trend_from_predecessor [of "noon 2025 1 10" new_year_db]
  note thm2 = trend_from_predecessor [of "noon 2025 1 10" winter_db]
  from thm1 ne1 obtain ins1 where ins1: "get_insights (noon 2025 1 10) new_year_db = Inr ins1"
    by blast
  with thm1 have v1: "insights_weekly_sales ins1 = ?one" by blast
  from thm1 short mem have a: "Trend (?one ! 0) = ''Insufficient Data''" by blast
  from thm2 ne2 obtain ins2 where ins2: "get_insights (noon 2025 1 10) winter_db = Inr ins2"
    by blast
  with thm2 have v2: "insights_weekly_sales ins2 = ?ws" by blast
  from thm2 long have step: "\<And>i. 0 < i \<Longrightarrow> i < length ?ws \<Longrightarrow>
      Trend (?ws ! i) =
        (if Weekly_Quantity_Sold (?ws ! (i - 1)) < Weekly_Quantity_Sold (?ws ! i)
         then ''Increasing''
         else if Weekly_Quantity_Sold (?ws ! i) < Weekly_Quantity_Sold (?ws ! (i - 1))
         then ''Decreasing'' else ''Stable'')"
    by blast
  have b: "Trend (?ws ! 1) = ''Decreasing''"
    using step [of 1] len q by simp
  have c: "Trend (?ws ! 2) = ''Increasing''"
    using step [of 2] len q by simp
  show ?thesis using short long a b c ins1 v1 ins2 v2 by simp
qed

text \<open>
  C9. With 2 or more weekly buckets \<^verbatim>\<open>get_insights\<close> returns, and the first row of its
  weekly view, which has no predecessor, has the trend \<open>Stable\<close>: its difference is NaN, and
  both comparisons of the classifier are false on NaN.
\<close>

theorem first_bucket_stable:
  assumes "2 \<le> length (get_weekly_sales db)"
  shows "\<exists>ins. get_insights now db = Inr ins \<and> Trend (insights_weekly_sales ins ! 0) = ''Stable''"
proof -
  from assms have pos: "0 < length (get_weekly_sales db)" by linarith
  then have "get_weekly_sales db \<noteq> []" by auto
  then have "get_sales db \<noteq> []" by (rule weekly_needs_sales)
  then obtain ins where ins: "get_insights now db = Inr ins"
    using get_insights_returns by blast
  have "Trend (with_trend (get_weekly_sales db) ! 0) = ''Stable''"
    using pos trend_column_first [OF assms] by (simp add: with_trend_nth)
  with ins show ?thesis by (auto simp: get_insights_views(1))
qed

theorem first_bucket_stable_witness:
  "2 \<le> length (get_weekly_sales winter_db)
   \<and> (\<exists>ins. get_insights (noon 2025 1 10) winter_db = Inr ins
         \<and> Trend (insights_weekly_sales ins ! 0) = ''Stable'')"
proof -
  have l: "2 \<le> length (get_weekly_sales winter_db)" by (simp add: length_winter)
  show ?thesis using l first_bucket_stable [OF l] by simp
qed

section \<open>Properties of the restock recommendations\<close>

lemma map_of_group_sum:
  "map_of (group_sum key val rows) k =
     (if k \<in> key ` set rows then Some (sum_list (map val (group_rows key rows k))) else None)"
proof -
  have "map_of (map (\<lambda>k. (k, sum_list (map val (group_rows key rows k)))) ks) k
      = (if k \<in> set ks then Some (sum_list (map val (group_rows key rows k))) else None)" for ks
    by (induction ks) auto
  then show ?thesis by (simp add: group_sum_def group_keys_props(3))
qed

lemma map_of_sales_velocity:
  "map_of (sales_velocity now rows) n =
     (if n \<in> Sale_Name ` set (recent_sales now rows)
      then Some (of_int (sum_list (map Quantity_Sold (group_rows Sale_Name (recent_sales now rows) n))) / 30)
      else None)"
proof -
  have "map_of (map (\<lambda>(n, q). (n, rat_of_int q / 30)) xs) n
      = map_option (\<lambda>q. rat_of_int q / 30) (map_of xs n)" for xs :: "(string \<times> int) list"
    by (induction xs) auto
  then show ?thesis by (simp add: sales_velocity_def map_of_group_sum)
qed

lemma merged_velocity_zero:
  assumes "sum_list (map Quantity_Sold (group_rows Sale_Name (recent_sales now rows) n)) = 0"
  shows "merged_velocity (sales_velocity now rows) n = 0"
  using assms by (simp add: merged_velocity_def map_of_sales_velocity)

lemma restock_urgency_zero_velocity:
  "0 \<le> q \<Longrightarrow> restock_urgency (fdiv (of_int q) 0) = ''Low''"
  by (simp add: restock_urgency_def fdiv_def)

text \<open>
  C3 (amended). When the sales frame has at least one row, the restock computation raises
  no error: \<^verbatim>\<open>get_insights\<close> returns, with one restock row per product. Take a row of it
  whose quantity is not negative (quantities on hand never are) and for whose product name
  the quantities sold in the trailing 30 days add up to zero (the code totals the sales by
  product name; a name without any recent sale gets velocity 0 through the left join and
  \<^verbatim>\<open>fillna(0)\<close>). Then its velocity is 0, its days to depletion are infinite (NaN for
  quantity 0), and its urgency is \<open>Low\<close>.
\<close>

theorem zero_velocity_low_urgency:
  assumes "get_sales db \<noteq> []"
  shows "\<exists>ins. get_insights now db = Inr ins
          \<and> restock_recommendations now db = Inr (insights_restock_recommendations ins)
          \<and> length (insights_restock_recommendations ins) = length (products db)
          \<and> (\<forall>r \<in> set (insights_restock_recommendations ins).
                0 \<le> Quantity r
                \<and> sum_list (map Quantity_Sold
                     (filter (\<lambda>x. Sale_Name x = Name r) (recent_sales now (get_sales db)))) = 0
                \<longrightarrow> Velocity r = 0
                    \<and> (Days_to_Depletion r = PInf \<or> Days_to_Depletion r = NaN)
                    \<and> Restock_Urgency r = ''Low'')"
proof -
  let ?vel = "sales_velocity now (get_sales db)"
  from get_insights_returns [OF assms] obtain ins where ins: "get_insights now db = Inr ins"
    by blast
  note rr = get_insights_views(3) [OF ins]
  with restock_recommendations_float [OF assms, of now]
  have rows: "insights_restock_recommendations ins =
      map (\<lambda>r. \<lparr>ID = ID r, Name = Name r, Price = Price r, Quantity = Quantity r,
            Stock_Status = Stock_Status r, Velocity = merged_velocity ?vel (Name r),
            Days_to_Depletion = fdiv (of_int (Quantity r)) (merged_velocity ?vel (Name r)),
            Restock_Urgency =
              restock_urgency (fdiv (of_int (Quantity r)) (merged_velocity ?vel (Name r)))\<rparr>)
          (get_products db)"
    by simp
  have len: "length (insights_restock_recommendations ins) = length (products db)"
    by (simp add: rows get_products_def)
  have "Velocity r = 0 \<and> (Days_to_Depletion r = PInf \<or> Days_to_Depletion r = NaN)
      \<and> Restock_Urgency r = ''Low''"
    if r: "r \<in> set (insights_restock_recommendations ins)"
      and q: "0 \<le> Quantity r"
      and z: "sum_list (map Quantity_Sold
                (filter (\<lambda>x. Sale_Name x = Name r) (recent_sales now (get_sales db)))) = 0"
    for r
  proof -
    from r rows obtain p where p: "p \<in> set (get_products db)"
      and req: "r = \<lparr>ID = ID p, Name = Name p, Price = Price p, Quantity = Quantity p,
            Stock_Status = Stock_Status p, Velocity = merged_velocity ?vel (Name p),
            Days_to_Depletion = fdiv (of_int (Quantity p)) (merged_velocity ?vel (Name p)),
            Restock_Urgency =
              restock_urgency (fdiv (of_int (Quantity p)) (merged_velocity ?vel (Name p)))\<rparr>"
      by auto
    have fields: "Name r = Name p" "Quantity r = Quantity p"
      by (simp_all add: req)
    from z have v: "merged_velocity ?vel (Name p) = 0"
      by (intro merged_velocity_zero) (simp add: group_rows_def fields)
    from q have qp: "0 \<le> Quantity p" by (simp add: fields)
    have "Velocity r = 0" by (subst req) (simp add: v)
    moreover have "Days_to_Depletion r = PInf \<or> Days_to_Depletion r = NaN"
      by (subst (1 2) req) (use qp in \<open>simp add: v fdiv_def\<close>)
    moreover have "Restock_Urgency r = ''Low''"
      by (subst req) (simp add: v restock_urgency_zero_velocity [OF qp])
    ultimately show ?thesis by simp
  qed
  with ins rr len show ?thesis by blast
qed

lemma winter_restock:
  "restock_recommendations (noon 2025 3 10) winter_db =
     Inr [\<lparr>ID = ''p1'', Name = ''A'', Price = 10, Quantity = 2, Stock_Status = ''Low Stock'',
            Velocity = 0, Days_to_Depletion = PInf, Restock_Urgency = ''Low''\<rparr>,
          \<lparr>ID = ''p2'', Name = ''B'', Price = 5 / 2, Quantity = 40, Stock_Status = ''In Stock'',
            Velocity = 0, Days_to_Depletion = PInf, Restock_Urgency = ''Low''\<rparr>,
          \<lparr>ID = ''p3'', Name = ''C'', Price = 3, Quantity = 0, Stock_Status = ''Out of Stock'',
            Velocity = 0, Days_to_Depletion = NaN, Restock_Urgency = ''Low''\<rparr>]"
  by code_simp

theorem zero_velocity_low_urgency_witness:
  "get_sales winter_db \<noteq> []
   \<and> sum_list (map Quantity_Sold
         (filter (\<lambda>x. Sale_Name x = ''A'') (recent_sales (noon 2025 3 10) (get_sales winter_db)))) = 0
   \<and> (\<exists>ins r. get_insights (noon 2025 3 10) winter_db = Inr ins
         \<and> r \<in> set (insights_restock_recommendations ins)
         \<and> Name r = ''A'' \<and> Quantity r = 2 \<and> Velocity r = 0 \<and> Restock_Urgency r = ''Low'')"
proof -
  let ?r = "\<lparr>ID = ''p1'', Name = ''A'', Price = 10, Quantity = 2, Stock_Status = ''Low Stock'',
            Velocity = 0, Days_to_Depletion = PInf, Restock_Urgency = ''Low''\<rparr>"
  have ne: "get_sales winter_db \<noteq> []"
    using arg_cong [OF winter_sales, of length] by auto
  have z: "sum_list (map Quantity_Sold
         (filter (\<lambda>x. Sale_Name x = ''A'') (recent_sales (noon 2025 3 10) (get_sales winter_db)))) = 0"
    by code_simp
  from zero_velocity_low_urgency [OF ne, of "noon 2025 3 10"]
  obtain ins where ins: "get_insights (noon 2025 3 10) winter_db = Inr ins"
    and rr: "restock_recommendations (noon 2025 3 10) winter_db
              = Inr (insights_restock_recommendations ins)"
    and low: "\<forall>r \<in> set (insights_restock_recommendations ins).
                0 \<le> Quantity r
                \<and> sum_list (map Quantity_Sold
                     (filter (\<lambda>x. Sale_Name x = Name r)
                        (recent_sales (noon 2025 3 10) (get_sales winter_db)))) = 0
                \<longrightarrow> Velocity r = 0
                    \<and> (Days_to_Depletion r = PInf \<or> Days_to_Depletion r = NaN)
                    \<and> Restock_Urgency r = ''Low''"
    by blast
  from rr winter_restock have "insights_restock_recommendations ins =
      [?r,
       \<lparr>ID = ''p2'', Name = ''B'', Price = 5 / 2, Quantity = 40, Stock_Status = ''In Stock'',
         Velocity = 0, Days_to_Depletion = PInf, Restock_Urgency = ''Low''\<rparr>,
       \<lparr>ID = ''p3'', Name = ''C'', Price = 3, Quantity = 0, Stock_Status = ''Out of Stock'',
         Velocity = 0, Days_to_Depletion = NaN, Restock_Urgency = ''Low''\<rparr>]"
    by simp
  then have m: "?r \<in> set (insights_restock_recommendations ins)" by simp
  from low m z have "Velocity ?r = 0 \<and> Restock_Urgency ?r = ''Low''" by simp
  with ins m ne z show ?thesis by (intro conjI exI [of _ ins] exI [of _ ?r]) simp_all
qed

text \<open>
  The claim as stated, per product, fails for two products that carry the same name: the
  one that was never sold takes the velocity of the other. With quantity 3 and velocity 1
  its days to depletion are 3 and its urgency is \<open>Urgent\<close>.
\<close>

theorem same_name_velocity_counterexample:
  "map p_id (products twins_db) = [''p1'', ''p2'']
   \<and> map s_product_id (sales twins_db) = [''p1'']
   \<and> restock_recommendations (noon 2025 1 10) twins_db =
       Inr [\<lparr>ID = ''p1'', Name = ''A'', Price = 10, Quantity = 50, Stock_Status = ''In Stock'',
              Velocity = 1, Days_to_Depletion = Fin 50, Restock_Urgency = ''Low''\<rparr>,
            \<lparr>ID = ''p2'', Name = ''A'', Price = 12, Quantity = 3, Stock_Status = ''Low Stock'',
              Velocity = 1, Days_to_Depletion = Fin 3, Restock_Urgency = ''Urgent''\<rparr>]"
  by code_simp

section \<open>Properties of the revenue contribution\<close>

lemma fsum_Fin_aux: "foldl fadd (Fin a) (map Fin xs) = Fin (a + sum_list xs)"
  by (induction xs arbitrary: a) (simp_all add: add.assoc)

lemma fsum_Fin: "fsum (map Fin xs) = Fin (sum_list xs)"
  by (simp add: fsum_def fsum_Fin_aux)

lemma group_sum_total:
  fixes val :: "'r \<Rightarrow> 'v::comm_monoid_add"
  shows "sum_list (map snd (group_sum key val rows)) = sum_list (map val rows)"
proof -
  have "map snd (group_sum key val rows)
      = map (\<lambda>k. sum_list (map val (group_rows key rows k))) (group_keys key rows)"
    by (simp add: group_sum_def comp_def)
  moreover have "sum_list (map (\<lambda>k. sum_list (map val (group_rows key rows k))) (group_keys key rows))
      = sum_list (map val rows)"
    by (rule sum_list_groups) (simp_all add: group_keys_props)
  ultimately show ?thesis by simp
qed

lemma revenue_contribution_finite:
  assumes "total_revenue rows \<noteq> 0"
  shows "map snd (revenue_contribution rows)
     = map Fin (map (\<lambda>v. v * (100 / total_revenue rows)) (map snd (group_sum Sale_Name Revenue rows)))"
  using assms by (simp add: revenue_contribution_def fdiv_def comp_def case_prod_unfold)

lemma sum_list_scaled:
  fixes c :: rat
  shows "sum_list (map (\<lambda>v. v * c) xs) = sum_list xs * c"
  by (induction xs) (simp_all add: distrib_right)

lemma revenue_contribution_sum:
  assumes "total_revenue rows \<noteq> 0"
  shows "fsum (map snd (revenue_contribution rows)) = Fin 100"
proof -
  have "sum_list (map (\<lambda>v. v * (100 / total_revenue rows)) (map snd (group_sum Sale_Name Revenue rows)))
      = sum_list (map snd (group_sum Sale_Name Revenue rows)) * (100 / total_revenue rows)"
    by (rule sum_list_scaled)
  also have "\<dots> = total_revenue rows * (100 / total_revenue rows)"
    by (simp add: group_sum_total total_revenue_def)
  also have "\<dots> = 100" using assms by simp
  finally show ?thesis
    by (simp only: revenue_contribution_finite [OF assms] fsum_Fin)
qed

lemma sum_list_pos:
  fixes f :: "'a \<Rightarrow> rat"
  shows "xs \<noteq> [] \<Longrightarrow> \<forall>x \<in> set xs. 0 < f x \<Longrightarrow> 0 < sum_list (map f xs)"
proof (induction xs)
  case Nil
  then show ?case by simp
next
  case (Cons x xs)
  show ?case
  proof (cases xs)
    case Nil
    with Cons.prems show ?thesis by simp
  next
    case (Cons y ys)
    with Cons.IH Cons.prems have "0 < sum_list (map f xs)" by simp
    moreover from Cons.prems have "0 < f x" by simp
    ultimately show ?thesis by simp
  qed
qed

lemma revenue_contribution_empty: "revenue_contribution [] = []"
  by (simp add: revenue_contribution_def group_sum_def group_keys_def)

text \<open>
  When the total revenue is strictly positive, \<^verbatim>\<open>get_insights\<close> returns and the revenue
  shares of its view add up to 100 over exact arithmetic. When every product has a
  positive price and every sale a positive quantity, a total revenue of zero means that
  the sales frame is empty, and the series of shares computed from it is empty.
\<close>

lemma revenue_shares_returned:
  assumes "0 < total_revenue (get_sales db)"
  shows "\<exists>ins. get_insights now db = Inr ins
          \<and> fsum (map snd (insights_revenue_contribution ins)) = Fin 100"
proof -
  from assms have "get_sales db \<noteq> []" by (auto simp: total_revenue_def)
  then obtain ins where ins: "get_insights now db = Inr ins"
    using get_insights_returns by blast
  from assms have "total_revenue (get_sales db) \<noteq> 0" by simp
  then have "fsum (map snd (revenue_contribution (get_sales db))) = Fin 100"
    by (rule revenue_contribution_sum)
  with ins show ?thesis by (auto simp: get_insights_views(2))
qed

lemma zero_revenue_no_sales:
  assumes "\<forall>p \<in> set (products db). 0 < p_price p"
      and "\<forall>s \<in> set (sales db). 0 < s_quantity_sold s"
      and "total_revenue (get_sales db) = 0"
  shows "get_sales db = []" and "revenue_contribution (get_sales db) = []"
proof -
  have pos: "\<forall>r \<in> set (get_sales db). 0 < Revenue r"
  proof
    fix r assume "r \<in> set (get_sales db)"
    then obtain s p where "s \<in> set (sales db)" "p \<in> set (products db)" "r = join_row s p"
      by (auto simp: get_sales_iff)
    with assms(1,2) show "0 < Revenue r" by (simp add: join_row_fields)
  qed
  show e: "get_sales db = []"
  proof (rule ccontr)
    assume "get_sales db \<noteq> []"
    from sum_list_pos [OF this pos] assms(3) show False by (simp add: total_revenue_def)
  qed
  then show "revenue_contribution (get_sales db) = []"
    by (simp add: revenue_contribution_empty)
qed

text \<open>
  C4. With a total revenue of zero the revenue contribution is meant to be an empty result
  and not an error. For a shop with three products and no sale the series of shares that
  \<^verbatim>\<open>get_insights\<close> computes is empty, but the call then raises \<^verbatim>\<open>ZeroDivisionError\<close> in
  the restock division and returns no view at all.
\<close>

theorem no_sales_insights_raise:
  "length (products shelf_db) = 3
   \<and> sales shelf_db = []
   \<and> total_revenue (get_sales shelf_db) = 0
   \<and> revenue_contribution (get_sales shelf_db) = []
   \<and> get_insights (noon 2025 1 10) shelf_db = Inl ZeroDivisionError"
  by code_simp

end
